theory Spec2Isabelle
  imports Complex_Main "HOL-Library.AList"
begin

section \<open>Flow statistics analysis (analyze_results.py)\<close>

text \<open>
  Python floats are modelled as real numbers: the operations are the ones the code
  performs, in the order it performs them (\<open>1e9\<close> is \<open>1000000000\<close> and \<open>1e6\<close> is
  \<open>1000000\<close>), without rounding, overflow, NaN or infinities. Python integers are
  unbounded and are modelled as \<open>int\<close>; \<open>//\<close> on them is \<open>div\<close>, both round down.
\<close>

datatype py_error = TypeError | ValueError | ZeroDivisionError | OSError | TimeoutExpired

subsection \<open>Flow elements of the artifact\<close>

text \<open>
  An attribute of a \<open>Flow\<close> element, as the conversions \<open>int(...)\<close> and \<open>float(...)\<close>
  of the parser see it: absent from the element, present with a text that converts to a
  number, or present with a text that does not convert.
\<close>

datatype 'a attr = Absent | Val 'a | Garbled

record flow_elem =
  flowId :: "int attr"
  txPackets :: "int attr"
  rxPackets :: "int attr"
  txBytes :: "int attr"
  rxBytes :: "int attr"
  delaySum :: "real attr"
  jitterSum :: "real attr"

text \<open>\<open>int(flow.get(name))\<close>: an absent attribute is \<open>int(None)\<close>, a TypeError.\<close>

definition int_required :: "int attr \<Rightarrow> py_error + int" where
  "int_required a = (case a of Absent \<Rightarrow> Inl TypeError | Val v \<Rightarrow> Inr v | Garbled \<Rightarrow> Inl ValueError)"

text \<open>\<open>int(flow.get(name, 0))\<close> and \<open>float(flow.get(name, 0))\<close>.\<close>

definition num_default :: "'a::zero attr \<Rightarrow> py_error + 'a" where
  "num_default a = (case a of Absent \<Rightarrow> Inr 0 | Val v \<Rightarrow> Inr v | Garbled \<Rightarrow> Inl ValueError)"

subsection \<open>Flow records\<close>

record flow_data =
  tx_packets :: int
  rx_packets :: int
  tx_bytes :: int
  rx_bytes :: int
  packet_loss_rate :: real
  avg_delay :: real
  avg_jitter :: real

text \<open>
  \<open>self.flows\<close> is a Python dict: it keeps insertion order, and assigning to a key that
  is already there replaces the value and leaves the key where it is. This is
  \<^const>\<open>AList.update\<close> on an association list.
\<close>

type_synonym flows = "(int \<times> flow_data) list"

text \<open>The body of the loop over the \<open>Flow\<close> elements, up to the assignment to the dict.\<close>

definition parse_flow :: "flow_elem \<Rightarrow> py_error + (int \<times> flow_data)" where
  "parse_flow flow =
    (case int_required (flowId flow) of Inl e \<Rightarrow> Inl e | Inr flow_id \<Rightarrow>
     case num_default (txPackets flow) of Inl e \<Rightarrow> Inl e | Inr txp \<Rightarrow>
     case num_default (rxPackets flow) of Inl e \<Rightarrow> Inl e | Inr rxp \<Rightarrow>
     case num_default (txBytes flow) of Inl e \<Rightarrow> Inl e | Inr txb \<Rightarrow>
     case num_default (rxBytes flow) of Inl e \<Rightarrow> Inl e | Inr rxb \<Rightarrow>
     let loss = (if txp > 0 then real_of_int (txp - rxp) / real_of_int txp else 0) in
     case num_default (delaySum flow) of Inl e \<Rightarrow> Inl e | Inr dsum \<Rightarrow>
     let delay_sum = dsum / 1000000000;
         delay = (if rxp > 0 then delay_sum / real_of_int rxp else 0) in
     case num_default (jitterSum flow) of Inl e \<Rightarrow> Inl e | Inr jsum \<Rightarrow>
     let jitter_sum = jsum / 1000000000;
         jitter = (if rxp > 1 then jitter_sum / real_of_int (rxp - 1) else 0) in
     Inr (flow_id,
          \<lparr>tx_packets = txp, rx_packets = rxp, tx_bytes = txb, rx_bytes = rxb,
           packet_loss_rate = loss, avg_delay = delay, avg_jitter = jitter\<rparr>))"

text \<open>
  The loop itself. An exception leaves the loop and is caught by the handler around it,
  which returns \<open>False\<close>; the records stored before it stay in the dict.
\<close>

fun parse_loop :: "flow_elem list \<Rightarrow> flows \<Rightarrow> bool \<times> flows" where
  "parse_loop [] fl = (True, fl)"
| "parse_loop (flow # rest) fl =
     (case parse_flow flow of
        Inl e \<Rightarrow> (False, fl)
      | Inr (flow_id, d) \<Rightarrow> parse_loop rest (AList.update flow_id d fl))"

text \<open>
  \<open>parse_flowmon_results\<close>: the document is \<open>None\<close> when \<open>ET.parse\<close> raises (the file is
  missing or is not well-formed XML), and otherwise the \<open>Flow\<close> elements in document order.
\<close>

definition parse_flowmon_results :: "flows \<Rightarrow> flow_elem list option \<Rightarrow> bool \<times> flows" where
  "parse_flowmon_results fl doc =
     (case doc of None \<Rightarrow> (False, fl) | Some elems \<Rightarrow> parse_loop elems fl)"

text \<open>The value of a counter attribute, \<open>0\<close> when the attribute is missing.\<close>

definition counter :: "'a::zero attr \<Rightarrow> 'a" where
  "counter a = (case a of Val v \<Rightarrow> v | _ \<Rightarrow> 0)"

subsection \<open>Throughput and delivery efficiency\<close>

definition calculate_throughput :: "flow_data \<Rightarrow> real \<Rightarrow> real" where
  "calculate_throughput d simulation_time =
     (if simulation_time \<le> 0 then 0
      else real_of_int (rx_bytes d * 8) / (simulation_time * 1000000))"

definition expected_packets :: "int \<Rightarrow> int" where
  "expected_packets image_size = (image_size + 1023) div 1024"

definition delivery_efficiency :: "flow_data \<Rightarrow> int \<Rightarrow> real" where
  "delivery_efficiency d image_size =
     (if expected_packets image_size > 0
      then real_of_int (rx_packets d) / real_of_int (expected_packets image_size)
      else 0)"

text \<open>What one stored record says about the element it was computed from.\<close>

definition derived_from :: "flow_elem \<Rightarrow> int \<Rightarrow> flow_data \<Rightarrow> bool" where
  "derived_from flow fid d \<longleftrightarrow>
     flowId flow = Val fid \<and>
     tx_packets d = counter (txPackets flow) \<and>
     rx_packets d = counter (rxPackets flow) \<and>
     tx_bytes d = counter (txBytes flow) \<and>
     rx_bytes d = counter (rxBytes flow) \<and>
     packet_loss_rate d =
       (if tx_packets d > 0
        then real_of_int (tx_packets d - rx_packets d) / real_of_int (tx_packets d) else 0) \<and>
     avg_delay d =
       (if rx_packets d > 0
        then (counter (delaySum flow) / 1000000000) / real_of_int (rx_packets d) else 0) \<and>
     avg_jitter d =
       (if rx_packets d > 1
        then (counter (jitterSum flow) / 1000000000) / real_of_int (rx_packets d - 1) else 0)"

subsection \<open>Text of the report\<close>

text \<open>\<open>str(n)\<close> of an integer: its decimal digits, with a minus sign when negative.\<close>

fun str_nat :: "nat \<Rightarrow> string" where
  "str_nat n =
     (if n < 10 then [''0123456789'' ! n]
      else str_nat (n div 10) @ [''0123456789'' ! (n mod 10)])"

declare str_nat.simps [simp del]

definition str_int :: "int \<Rightarrow> string" where
  "str_int i = (if i < 0 then CHR ''-'' # str_nat (nat (- i)) else str_nat (nat i))"

text \<open>A row of the data frame that \<open>export_csv_report\<close> builds.\<close>

record csv_row =
  Flow_ID :: int
  Footballer :: string
  Packets_Sent :: int
  Packets_Received :: int
  Bytes_Sent :: int
  Bytes_Received :: int
  Packet_Loss_Rate_pct :: real
  Avg_Delay_ms :: real
  Avg_Jitter_ms :: real
  Throughput_Mbps :: real
  Success_Rate_pct :: real

text \<open>
  What the analysis takes from Python's library and from pandas, matplotlib and
  ElementTree, none of which is part of the repository. Each is a parameter of the model:
  the formatting of a float (\<open>f"{x}"\<close>, \<open>f"{x:.2f}"\<close>, \<open>f"{x:.4f}"\<close>, \<open>f"{x:.2%}"\<close>),
  the decoding of the bytes of a file into its \<open>Flow\<close> elements (\<open>ET.parse\<close> followed by
  \<open>findall('.//Flow')\<close>, \<open>None\<close> when \<open>ET.parse\<close> raises), the serialisation of a data
  frame (\<open>DataFrame.to_csv\<close>), and what drawing the plots ends in.
\<close>

datatype plot_result = Plotted | RaisedImportError | RaisedOther py_error

record py_lib =
  str_float :: "real \<Rightarrow> string"
  fmt_2f :: "real \<Rightarrow> string"
  fmt_4f :: "real \<Rightarrow> string"
  fmt_pct :: "real \<Rightarrow> string"
  xml_flows :: "string \<Rightarrow> flow_elem list option"
  to_csv :: "csv_row list \<Rightarrow> string"
  visualize :: "flows \<Rightarrow> string \<Rightarrow> plot_result"

text \<open>\<open>self.footballer_names\<close> and \<open>self.footballer_names.get(i, f"Player_{i}")\<close>.\<close>

definition footballer_names :: "(nat \<times> string) list" where
  "footballer_names =
     [(0, ''Messi''), (1, ''Ronaldo''), (2, ''Neymar''), (3, ''Mbappe''), (4, ''Haaland'')]"

definition footballer :: "nat \<Rightarrow> string" where
  "footballer i =
     (case map_of footballer_names i of Some name \<Rightarrow> name | None \<Rightarrow> ''Player_'' @ str_nat i)"

text \<open>\<open>"\n".join(report)\<close>.\<close>

fun join_lines :: "string list \<Rightarrow> string" where
  "join_lines [] = []"
| "join_lines [l] = l"
| "join_lines (l # ls) = l @ [CHR 0x0A] @ join_lines ls"

text \<open>The lines appended for one flow, \<open>i\<close> being its index in the enumeration of the dict.\<close>

definition flow_block ::
  "py_lib \<Rightarrow> real \<Rightarrow> int \<Rightarrow> nat \<Rightarrow> int \<times> flow_data \<Rightarrow> string list" where
  "flow_block py simulation_time image_size i kv =
     (let flow_id = fst kv; d = snd kv;
          throughput = calculate_throughput d simulation_time in
      [''Flow '' @ str_int flow_id @ '' - '' @ footballer i @ '':'',
       ''  Packets: '' @ str_int (tx_packets d) @ '' sent, '' @ str_int (rx_packets d) @ '' received'',
       ''  Bytes: '' @ str_int (tx_bytes d) @ '' sent, '' @ str_int (rx_bytes d) @ '' received'',
       ''  Packet Loss Rate: '' @ fmt_pct py (packet_loss_rate d),
       ''  Average Delay: '' @ fmt_4f py (avg_delay d) @ '' seconds'',
       ''  Average Jitter: '' @ fmt_4f py (avg_jitter d) @ '' seconds'',
       ''  Throughput: '' @ fmt_2f py throughput @ '' Mbps'',
       ''  Delivery Efficiency: '' @ fmt_pct py (delivery_efficiency d image_size),
       ''''])"

text \<open>The loop over \<open>enumerate(self.flows.items())\<close>.\<close>

definition per_flow_lines :: "py_lib \<Rightarrow> real \<Rightarrow> int \<Rightarrow> flows \<Rightarrow> string list" where
  "per_flow_lines py simulation_time image_size fl =
     concat (map (\<lambda>(i, kv). flow_block py simulation_time image_size i kv)
               (List.enumerate 0 fl))"

text \<open>
  The overall throughput of line 103. The division is a Python division of an int by a
  float, which raises ZeroDivisionError when the divisor is zero.
\<close>

definition overall_throughput :: "flows \<Rightarrow> real \<Rightarrow> py_error + real" where
  "overall_throughput fl simulation_time =
     (let total_bytes_received = sum_list (map (rx_bytes \<circ> snd) fl) in
      if simulation_time * 1000000 = 0 then Inl ZeroDivisionError
      else Inr (real_of_int (total_bytes_received * 8) / (simulation_time * 1000000)))"

definition generate_performance_report ::
  "py_lib \<Rightarrow> flows \<Rightarrow> real \<Rightarrow> int \<Rightarrow> py_error + string" where
  "generate_performance_report py fl simulation_time image_size =
     (let parameters =
            [replicate 60 CHR ''='',
             ''FOOTBALL NETWORK SIMULATION - PERFORMANCE REPORT'',
             replicate 60 CHR ''='',
             '''',
             ''SIMULATION PARAMETERS:'',
             ''  Simulation Time: '' @ str_float py simulation_time @ '' seconds'',
             ''  Image Size: '' @ str_int image_size @ '' bytes'',
             ''  Number of Flows: '' @ str_nat (length fl),
             ''''];
          total_packets_sent = sum_list (map (tx_packets \<circ> snd) fl);
          total_packets_received = sum_list (map (rx_packets \<circ> snd) fl);
          overall_packet_loss =
            (if total_packets_sent > 0
             then real_of_int (total_packets_sent - total_packets_received) /
                  real_of_int total_packets_sent
             else 0)
      in case overall_throughput fl simulation_time of
           Inl e \<Rightarrow> Inl e
         | Inr throughput \<Rightarrow>
             Inr (join_lines
               (parameters @
                [''OVERALL NETWORK PERFORMANCE:'',
                 ''  Total Packets Sent: '' @ str_int total_packets_sent,
                 ''  Total Packets Received: '' @ str_int total_packets_received,
                 ''  Overall Packet Loss Rate: '' @ fmt_pct py overall_packet_loss,
                 ''  Overall Throughput: '' @ fmt_2f py throughput @ '' Mbps'',
                 '''',
                 ''PER-FOOTBALLER TRANSMISSION STATISTICS:'',
                 replicate 60 CHR ''-''] @
                per_flow_lines py simulation_time image_size fl)))"

subsection \<open>Tabular export\<close>

text \<open>The list \<open>data\<close> built by \<open>export_csv_report\<close>, one row per flow.\<close>

definition csv_data :: "flows \<Rightarrow> real \<Rightarrow> csv_row list" where
  "csv_data fl simulation_time =
     map (\<lambda>(i, (flow_id, d)).
            \<lparr>Flow_ID = flow_id,
             Footballer = footballer i,
             Packets_Sent = tx_packets d,
             Packets_Received = rx_packets d,
             Bytes_Sent = tx_bytes d,
             Bytes_Received = rx_bytes d,
             Packet_Loss_Rate_pct = packet_loss_rate d * 100,
             Avg_Delay_ms = avg_delay d * 1000,
             Avg_Jitter_ms = avg_jitter d * 1000,
             Throughput_Mbps = calculate_throughput d simulation_time,
             Success_Rate_pct = (1 - packet_loss_rate d) * 100\<rparr>)
         (List.enumerate 0 fl)"

text \<open>
  The files of the model: a path with its bytes. Directories are not modelled, so
  \<open>os.makedirs\<close> has no effect here and \<open>os.path.exists\<close> is membership in the domain.
\<close>

type_synonym files = "string \<Rightarrow> string option"

definition export_csv_report ::
  "py_lib \<Rightarrow> flows \<Rightarrow> string \<Rightarrow> real \<Rightarrow> files \<Rightarrow> files" where
  "export_csv_report py fl output_dir simulation_time fs =
     fs(output_dir @ ''/simulation_results.csv'' \<mapsto> to_csv py (csv_data fl simulation_time))"

subsection \<open>Entry point of the analysis\<close>

record args =
  arg_flowmon :: string
  arg_output :: string
  arg_simulation_time :: real
  arg_image_size :: int
  arg_no_plots :: bool

text \<open>
  \<open>main\<close> of analyze_results.py, on parsed arguments. The result is the value returned
  (the exit code of the process) or the exception that leaves \<open>main\<close>, with the files
  as they are at that point. The analyzer is created by \<open>main\<close>, so its dict starts empty.
  What is printed is not modelled, nor are the image files of the plots.
\<close>

definition main_analyze_results ::
  "py_lib \<Rightarrow> args \<Rightarrow> files \<Rightarrow> (py_error + int) \<times> files" where
  "main_analyze_results py a fs =
     (case fs (arg_flowmon a) of
        None \<Rightarrow> (Inr 1, fs)
      | Some bytes \<Rightarrow>
          (case parse_flowmon_results [] (xml_flows py bytes) of
             (False, fl) \<Rightarrow> (Inr 1, fs)
           | (True, fl) \<Rightarrow>
               (case generate_performance_report py fl (arg_simulation_time a) (arg_image_size a) of
                  Inl e \<Rightarrow> (Inl e, fs)
                | Inr report \<Rightarrow>
                    (let fs1 = fs(arg_output a @ ''/performance_report.txt'' \<mapsto> report);
                         fs2 = export_csv_report py fl (arg_output a) (arg_simulation_time a) fs1
                     in if arg_no_plots a then (Inr 0, fs2)
                        else (case visualize py fl (arg_output a) of
                                RaisedOther e \<Rightarrow> (Inl e, fs2)
                              | _ \<Rightarrow> (Inr 0, fs2))))))"

subsection \<open>The expected packets in the words of the specification\<close>

text \<open>
  The specification words the expected number of packets as the ceiling of the image
  size over the packet size of the run. It is stated here to be compared with
  \<open>expected_packets\<close>, which is what the code computes.
\<close>

definition specified_expected_packets :: "int \<Rightarrow> int \<Rightarrow> int" where
  "specified_expected_packets image_size packet_size =
     \<lceil>real_of_int image_size / real_of_int packet_size\<rceil>"

section \<open>Scenario runner (run_scenarios.py)\<close>

subsection \<open>Configuration\<close>

text \<open>
  The loaded \<open>ConfigParser\<close>: the names of its sections in file order, and the lookup of
  an option in a section. \<open>get_option\<close> is \<open>section.get(key, fallback)\<close>.
\<close>

record config =
  cfg_sections :: "string list"
  cfg_option :: "string \<Rightarrow> string \<Rightarrow> string option"

definition get_option :: "config \<Rightarrow> string \<Rightarrow> string \<Rightarrow> string \<Rightarrow> string" where
  "get_option cfg section_name key fallback =
     (case cfg_option cfg section_name key of Some v \<Rightarrow> v | None \<Rightarrow> fallback)"

text \<open>
  \<open>self.config[name] if name in self.config.sections() else {}\<close> followed by
  \<open>.get(key, fallback)\<close>: the empty dict answers every key with the fallback.
\<close>

definition get_option_or_empty :: "config \<Rightarrow> string \<Rightarrow> string \<Rightarrow> string \<Rightarrow> string" where
  "get_option_or_empty cfg section_name key fallback =
     (if section_name \<in> set (cfg_sections cfg) then get_option cfg section_name key fallback
      else fallback)"

definition get_scenarios :: "config \<Rightarrow> string list" where
  "get_scenarios cfg = [s \<leftarrow> cfg_sections cfg. take 9 s = ''scenario_'']"

subsection \<open>The outside of the runner\<close>

text \<open>
  What the runner takes from Python's library: \<open>float(s)\<close> and \<open>int(s)\<close> of a text
  (\<open>None\<close> when they raise ValueError), \<open>str(x)\<close> and \<open>f"{x:.2f}"\<close> of a float, and
  \<open>sys.executable\<close>.
\<close>

record runner_lib =
  float_of :: "string \<Rightarrow> real option"
  int_of :: "string \<Rightarrow> int option"
  repr_float :: "real \<Rightarrow> string"
  fmt_seconds :: "real \<Rightarrow> string"
  sys_executable :: string

text \<open>
  How a call of \<open>subprocess.run\<close> ends: the process exits with a return code and its
  captured output, the wait passes the timeout (\<open>TimeoutExpired\<close>), or the call raises
  another exception (the executable is missing, for instance).
\<close>

datatype process = Exited int string string | Expired | Not_started

text \<open>
  What the operating system answers while one scenario is processed. These answers are
  inputs of the model: whether \<open>os.chdir("..")\<close> succeeds, how the simulator ends and how
  long it took, whether the output file can be written, which produced files exist and
  can be renamed, and for the analysis whether the flow statistics and the tabular export
  are in the scenario directory and how the analysis process ends.
\<close>

record outside =
  chdir_ok :: "bool"
  simulator :: "process"
  elapsed :: "real"
  write_ok :: "bool"
  present :: "string \<Rightarrow> bool"
  rename_ok :: "string \<Rightarrow> bool"
  flowmon_found :: "bool"
  analysis :: "process"
  csv_found :: "bool"

text \<open>
  The effects of the runner on the outside, in the order in which they happen, each with
  the working directory in which it happens. Of what is printed, only the lines that
  report an outcome are kept.
\<close>

datatype message =
    Scenario_not_found string
  | Scenario_completed real
  | Scenario_failed int string
  | Scenario_timed_out
  | Error_running_scenario
  | No_flowmon_results string
  | Analysis_completed string
  | Analysis_failed string
  | Error_analyzing string
  | No_scenarios_for_comparison

datatype call =
    Makedirs string
  | Run "string list"
  | Write string string
  | Rename string string
  | Say message

record world =
  cwd :: "string list"
  trace :: "(string list \<times> call) list"

definition emit :: "call \<Rightarrow> world \<Rightarrow> world" where
  "emit c w = w\<lparr>trace := trace w @ [(cwd w, c)]\<rparr>"

text \<open>\<open>os.path.join\<close> of two components.\<close>

definition path_join :: "string \<Rightarrow> string \<Rightarrow> string" where
  "path_join a b =
     (if take 1 b = ''/'' then b
      else if a = [] \<or> last a = CHR ''/'' then a @ b
      else a @ ''/'' @ b)"

definition results_dir :: string where
  "results_dir = ''scenario_results''"

text \<open>\<open>str.lower\<close> on the letters A to Z.\<close>

definition lower :: "string \<Rightarrow> string" where
  "lower s =
     map (\<lambda>c. if 65 \<le> (of_char c :: nat) \<and> (of_char c :: nat) \<le> 90
              then char_of ((of_char c :: nat) + 32) else c) s"

subsection \<open>Running one scenario\<close>

definition simulator_command :: "config \<Rightarrow> string \<Rightarrow> string list" where
  "simulator_command cfg scenario_name =
     (let simulation_time = get_option cfg scenario_name ''simulation_time'' ''10.0'';
          image_size = get_option cfg scenario_name ''image_size'' ''50000'';
          packet_size = get_option cfg scenario_name ''packet_size'' ''1024'';
          data_rate = get_option cfg scenario_name ''data_rate'' ''1Mbps'';
          delay = get_option cfg scenario_name ''delay'' ''2ms'';
          enable_netanim = (lower (get_option cfg scenario_name ''enable_netanim'' ''true'') = ''true'')
      in [''../ns3'', ''run'', ''CN-ns3-project/footballer-network-sim'', ''--'',
          ''--simulationTime='' @ simulation_time,
          ''--imageSize='' @ image_size,
          ''--packetSize='' @ packet_size,
          ''--dataRate='' @ data_rate,
          ''--delay='' @ delay,
          ''--enableNetAnim='' @ (if enable_netanim then ''true'' else ''false'')])"

text \<open>The loop over \<open>files_to_move\<close>; a failing \<open>os.rename\<close> raises OSError.\<close>

fun move_files :: "outside \<Rightarrow> string \<Rightarrow> string list \<Rightarrow> world \<Rightarrow> (py_error + unit) \<times> world" where
  "move_files out scenario_dir [] w = (Inr (), w)"
| "move_files out scenario_dir (filename # rest) w =
     (if present out filename
      then (if rename_ok out filename
            then move_files out scenario_dir rest
                   (emit (Rename filename (path_join scenario_dir filename)) w)
            else (Inl OSError, w))
      else move_files out scenario_dir rest w)"

text \<open>
  The body of the \<open>try\<close> statement of \<open>run_scenario\<close>: the value returned, or the
  exception raised in it.
\<close>

definition run_scenario_try ::
  "runner_lib \<Rightarrow> config \<Rightarrow> outside \<Rightarrow> string \<Rightarrow> world \<Rightarrow> (py_error + bool) \<times> world" where
  "run_scenario_try lib cfg out scenario_name w =
     (let scenario_dir = path_join results_dir scenario_name;
          description = get_option cfg scenario_name ''description'' ''No description''
      in if \<not> chdir_ok out then (Inl OSError, w)
         else
           let w1 = w\<lparr>cwd := butlast (cwd w)\<rparr>;
               w2 = emit (Run (simulator_command cfg scenario_name)) w1
           in case simulator out of
                Expired \<Rightarrow> (Inl TimeoutExpired, w2)
              | Not_started \<Rightarrow> (Inl OSError, w2)
              | Exited returncode out_text err_text \<Rightarrow>
                  if returncode = 0 then
                    (let w3 = emit (Say (Scenario_completed (elapsed out))) w2
                     in if \<not> write_ok out then (Inl OSError, w3)
                        else
                          let w4 = emit (Write (path_join scenario_dir ''simulation_output.txt'')
                                     (''Scenario: '' @ scenario_name @ [CHR 0x0A] @
                                      ''Description: '' @ description @ [CHR 0x0A] @
                                      ''Execution Time: '' @ fmt_seconds lib (elapsed out) @
                                      '' seconds'' @ [CHR 0x0A] @
                                      ''Return Code: '' @ str_int returncode @
                                      [CHR 0x0A, CHR 0x0A] @
                                      ''STDOUT:'' @ [CHR 0x0A] @ out_text @
                                      [CHR 0x0A] @ ''STDERR:'' @ [CHR 0x0A] @ err_text)) w3
                          in case move_files out scenario_dir
                                    [''footballer-network-anim.xml'', ''flowmon-results.xml''] w4 of
                               (Inl e, w5) \<Rightarrow> (Inl e, w5)
                             | (Inr u, w5) \<Rightarrow> (Inr True, w5))
                  else
                    (let w3 = emit (Say (Scenario_failed returncode err_text)) w2
                     in if \<not> write_ok out then (Inl OSError, w3)
                        else
                          (Inr False,
                           emit (Write (path_join scenario_dir ''error_output.txt'')
                                     (''Scenario: '' @ scenario_name @ [CHR 0x0A] @
                                      ''Return Code: '' @ str_int returncode @ [CHR 0x0A] @
                                      ''Execution Time: '' @ fmt_seconds lib (elapsed out) @
                                      '' seconds'' @ [CHR 0x0A, CHR 0x0A] @
                                      ''STDOUT:'' @ [CHR 0x0A] @ out_text @
                                      [CHR 0x0A] @ ''STDERR:'' @ [CHR 0x0A] @ err_text)) w3)))"

text \<open>
  \<open>run_scenario\<close>: the early return for an unknown scenario, then the \<open>try\<close> statement
  with its two handlers and its \<open>finally\<close> clause, which changes back to the directory
  read by \<open>os.getcwd()\<close> before the \<open>try\<close>. The calls outside the \<open>try\<close>
  (\<open>os.makedirs\<close>, \<open>os.getcwd\<close> and the final \<open>os.chdir\<close>) are taken to succeed.
\<close>

definition run_scenario ::
  "runner_lib \<Rightarrow> config \<Rightarrow> outside \<Rightarrow> string \<Rightarrow> world \<Rightarrow> bool \<times> world" where
  "run_scenario lib cfg out scenario_name w =
     (if scenario_name \<notin> set (cfg_sections cfg)
      then (False, emit (Say (Scenario_not_found scenario_name)) w)
      else
        let w1 = emit (Makedirs (path_join results_dir scenario_name)) w;
            original_dir = cwd w1;
            handled =
              (case run_scenario_try lib cfg out scenario_name w1 of
                 (Inr b, w2) \<Rightarrow> (b, w2)
               | (Inl TimeoutExpired, w2) \<Rightarrow> (False, emit (Say Scenario_timed_out) w2)
               | (Inl e, w2) \<Rightarrow> (False, emit (Say Error_running_scenario) w2))
        in (fst handled, (snd handled)\<lparr>cwd := original_dir\<rparr>))"

subsection \<open>Analysing one scenario\<close>

text \<open>
  \<open>analyze_scenario_results\<close>. The conversions \<open>float(...)\<close> and \<open>int(...)\<close> of the
  configured texts stand before the \<open>try\<close> statement, so a ValueError of theirs leaves
  the function. Inside the \<open>try\<close>, every exception is answered with \<open>False\<close>.
\<close>

definition analysis_command ::
  "runner_lib \<Rightarrow> string \<Rightarrow> real \<Rightarrow> int \<Rightarrow> string list" where
  "analysis_command lib scenario_name simulation_time image_size =
     (let scenario_dir = path_join results_dir scenario_name;
          flowmon_file = path_join scenario_dir ''flowmon-results.xml''
      in [sys_executable lib, ''analyze_results.py'',
          ''--flowmon'', flowmon_file,
          ''--output'', scenario_dir,
          ''--simulation-time'', repr_float lib simulation_time,
          ''--image-size'', str_int image_size,
          ''--no-plots''])"

definition analyze_scenario_results ::
  "runner_lib \<Rightarrow> config \<Rightarrow> outside \<Rightarrow> string \<Rightarrow> world \<Rightarrow> (py_error + bool) \<times> world" where
  "analyze_scenario_results lib cfg out scenario_name w =
     (if \<not> flowmon_found out
      then (Inr False, emit (Say (No_flowmon_results scenario_name)) w)
      else
        case float_of lib (get_option_or_empty cfg scenario_name ''simulation_time'' ''10.0'') of
          None \<Rightarrow> (Inl ValueError, w)
        | Some simulation_time \<Rightarrow>
            (case int_of lib (get_option_or_empty cfg scenario_name ''image_size'' ''50000'') of
               None \<Rightarrow> (Inl ValueError, w)
             | Some image_size \<Rightarrow>
                 (let w1 = emit (Run (analysis_command lib scenario_name simulation_time image_size)) w
                  in case analysis out of
                       Exited returncode out_text err_text \<Rightarrow>
                         if returncode = 0
                         then (Inr True, emit (Say (Analysis_completed scenario_name)) w1)
                         else (Inr False, emit (Say (Analysis_failed scenario_name)) w1)
                     | _ \<Rightarrow> (Inr False, emit (Say (Error_analyzing scenario_name)) w1))))"

subsection \<open>Running all scenarios\<close>

text \<open>
  The loop of \<open>run_all_scenarios\<close> over the scenarios, with the dict \<open>results\<close>. Each
  scenario meets its own answers of the outside, \<open>outs scenario\<close>.
\<close>

fun run_loop ::
  "runner_lib \<Rightarrow> config \<Rightarrow> (string \<Rightarrow> outside) \<Rightarrow> string list \<Rightarrow> (string \<times> bool) list \<Rightarrow> world \<Rightarrow>
     (py_error + (string \<times> bool) list) \<times> world" where
  "run_loop lib cfg outs [] results w = (Inr results, w)"
| "run_loop lib cfg outs (scenario # rest) results w =
     (case run_scenario lib cfg (outs scenario) scenario w of
        (True, w1) \<Rightarrow>
          (case analyze_scenario_results lib cfg (outs scenario) scenario w1 of
             (Inl e, w2) \<Rightarrow> (Inl e, w2)
           | (Inr analysed, w2) \<Rightarrow>
               run_loop lib cfg outs rest (AList.update scenario True results) w2)
      | (False, w1) \<Rightarrow>
          run_loop lib cfg outs rest (AList.update scenario False results) w1)"

definition run_all_scenarios ::
  "runner_lib \<Rightarrow> config \<Rightarrow> (string \<Rightarrow> outside) \<Rightarrow> world \<Rightarrow>
     (py_error + (string \<times> bool) list) \<times> world" where
  "run_all_scenarios lib cfg outs w =
     (let scenarios = get_scenarios cfg
      in if scenarios = [] then (Inr [], w)
         else run_loop lib cfg outs scenarios [] (emit (Makedirs results_dir) w))"

subsection \<open>Comparison report\<close>

definition comparison_text :: "config \<Rightarrow> string list \<Rightarrow> string" where
  "comparison_text cfg scenarios =
     ''FOOTBALL NETWORK SIMULATION - SCENARIO COMPARISON'' @ [CHR 0x0A] @
     replicate 60 CHR ''='' @ [CHR 0x0A, CHR 0x0A] @
     concat (map (\<lambda>scenario.
        ''Scenario: '' @ scenario @ [CHR 0x0A] @
        ''Description: '' @ get_option_or_empty cfg scenario ''description'' ''No description'' @
          [CHR 0x0A] @
        ''Data Rate: '' @ get_option_or_empty cfg scenario ''data_rate'' ''N/A'' @ [CHR 0x0A] @
        ''Delay: '' @ get_option_or_empty cfg scenario ''delay'' ''N/A'' @ [CHR 0x0A] @
        ''Image Size: '' @ get_option_or_empty cfg scenario ''image_size'' ''N/A'' @ '' bytes'' @
          [CHR 0x0A] @
        replicate 40 CHR ''-'' @ [CHR 0x0A]) scenarios)"

text \<open>
  \<open>compare_scenarios\<close>; the argument is \<open>None\<close> when the caller passes no list, and the
  scenarios with a tabular export are taken then.
\<close>

definition compare_scenarios ::
  "config \<Rightarrow> (string \<Rightarrow> outside) \<Rightarrow> string list option \<Rightarrow> world \<Rightarrow> world" where
  "compare_scenarios cfg outs given w =
     (let scenarios =
            (case given of
               None \<Rightarrow> [s \<leftarrow> get_scenarios cfg. csv_found (outs s)]
             | Some l \<Rightarrow> l)
      in if scenarios = [] then emit (Say No_scenarios_for_comparison) w
         else emit (Write (path_join results_dir ''scenario_comparison.txt'')
                      (comparison_text cfg scenarios)) w)"

subsection \<open>Entry point of the runner\<close>

text \<open>
  The parsed arguments of run_scenarios.py; the configuration named by \<open>--config\<close> is the
  \<open>config\<close> given to \<open>main\<close>. An option that takes a text is tested for truth by the
  code, so the empty text counts as not given: \<open>given\<close> is the text when it counts.
\<close>

record runner_args =
  arg_list :: bool
  arg_analyze_only :: "string option"
  arg_compare :: bool
  arg_scenario :: "string option"

definition given :: "string option \<Rightarrow> string option" where
  "given opt = (case opt of None \<Rightarrow> None | Some s \<Rightarrow> if s = [] then None else Some s)"

definition main_run_scenarios ::
  "runner_lib \<Rightarrow> config \<Rightarrow> (string \<Rightarrow> outside) \<Rightarrow> runner_args \<Rightarrow> world \<Rightarrow>
     (py_error + int) \<times> world" where
  "main_run_scenarios lib cfg outs a w =
     (if arg_list a then (Inr 0, w)
      else case given (arg_analyze_only a) of
        Some name \<Rightarrow>
          (case analyze_scenario_results lib cfg (outs name) name w of
             (Inl e, w1) \<Rightarrow> (Inl e, w1)
           | (Inr analysed, w1) \<Rightarrow> (Inr (if analysed then 0 else 1), w1))
      | None \<Rightarrow>
          if arg_compare a then (Inr 0, compare_scenarios cfg outs None w)
          else case given (arg_scenario a) of
            Some name \<Rightarrow>
              (case run_scenario lib cfg (outs name) name w of
                 (True, w1) \<Rightarrow>
                   (case analyze_scenario_results lib cfg (outs name) name w1 of
                      (Inl e, w2) \<Rightarrow> (Inl e, w2)
                    | (Inr analysed, w2) \<Rightarrow> (Inr 0, w2))
               | (False, w1) \<Rightarrow> (Inr 1, w1))
          | None \<Rightarrow>
              (case run_all_scenarios lib cfg outs w of
                 (Inl e, w1) \<Rightarrow> (Inl e, w1)
               | (Inr results, w1) \<Rightarrow>
                   (let successful_scenarios = map fst (filter snd results);
                        w2 = (if successful_scenarios \<noteq> []
                              then compare_scenarios cfg outs (Some successful_scenarios) w1
                              else w1)
                    in (Inr (if list_ex snd results then 0 else 1), w2))))"

subsection \<open>Worlds with a past\<close>

text \<open>The same world with effects \<open>t\<close> that happened before.\<close>

definition after :: "(string list \<times> call) list \<Rightarrow> world \<Rightarrow> world" where
  "after t w = w\<lparr>trace := t @ trace w\<rparr>"

subsection \<open>One turn of the loop\<close>


subsection \<open>Example inputs\<close>

text \<open>
  A configuration with a general section and two scenarios, a library, and answers of
  the outside for a simulator that succeeds, one that fails and one that runs into the
  timeout; then the answers for a run of both scenarios in which the first fails and the
  second succeeds, and a library and arguments for the analysis. They are the concrete
  inputs of the examples below.
\<close>

definition example_config :: config where
  "example_config =
     \<lparr>cfg_sections = [''general'', ''scenario_a'', ''scenario_b''],
      cfg_option = (\<lambda>section_name key.
        if section_name = ''scenario_b'' \<and> key = ''data_rate'' then Some ''5Mbps''
        else if section_name = ''scenario_a'' \<and> key = ''delay'' then Some ''10ms''
        else None)\<rparr>"

definition small_packet_config :: config where
  "small_packet_config =
     \<lparr>cfg_sections = [''scenario_small''],
      cfg_option = (\<lambda>section_name key.
        if section_name = ''scenario_small'' \<and> key = ''packet_size'' then Some ''512''
        else None)\<rparr>"

definition example_lib :: runner_lib where
  "example_lib =
     \<lparr>float_of = (\<lambda>s. if s = ''10.0'' then Some 10 else None),
      int_of = (\<lambda>s. if s = ''50000'' then Some 50000 else None),
      repr_float = (\<lambda>x. ''10.0''),
      fmt_seconds = (\<lambda>x. ''0.50''),
      sys_executable = ''python3''\<rparr>"

definition succeeding :: outside where
  "succeeding =
     \<lparr>chdir_ok = True, simulator = Exited 0 ''done'' '''', elapsed = 1 / 2, write_ok = True,
      present = (\<lambda>filename. filename = ''flowmon-results.xml''),
      rename_ok = (\<lambda>filename. True),
      flowmon_found = True, analysis = Exited 0 '''' '''', csv_found = True\<rparr>"

definition failing :: outside where
  "failing =
     \<lparr>chdir_ok = True, simulator = Exited 1 '''' ''boom'', elapsed = 1 / 2, write_ok = True,
      present = (\<lambda>filename. False), rename_ok = (\<lambda>filename. True),
      flowmon_found = False, analysis = Not_started, csv_found = False\<rparr>"

definition timing_out :: outside where
  "timing_out =
     \<lparr>chdir_ok = True, simulator = Expired, elapsed = 300, write_ok = True,
      present = (\<lambda>filename. False), rename_ok = (\<lambda>filename. True),
      flowmon_found = False, analysis = Not_started, csv_found = False\<rparr>"

definition example_world :: world where
  "example_world = \<lparr>cwd = [''ns-3'', ''scratch'', ''CN-ns3-project''], trace = []\<rparr>"


definition example_py :: py_lib where
  "example_py =
     \<lparr>str_float = (\<lambda>x. ''?''), fmt_2f = (\<lambda>x. ''?''), fmt_4f = (\<lambda>x. ''?''),
      fmt_pct = (\<lambda>x. ''?''),
      xml_flows = (\<lambda>b. if b = ''<FlowMonitor/>'' then
        Some [\<lparr>flowId = Val 1, txPackets = Val 100, rxPackets = Val 95, txBytes = Val 100000,
               rxBytes = Val 95000, delaySum = Val 2000000000, jitterSum = Val 940000000\<rparr>]
        else None),
      to_csv = (\<lambda>rows. concat (map (\<lambda>r. str_int (Flow_ID r) @ '','' @ Footballer r @ '';'') rows)),
      visualize = (\<lambda>fl dir. Plotted)\<rparr>"

definition example_args :: args where
  "example_args =
     \<lparr>arg_flowmon = ''flowmon-results.xml'', arg_output = ''results'',
      arg_simulation_time = 10, arg_image_size = 50000, arg_no_plots = True\<rparr>"

text \<open>
  The answers of the outside in a directory tree that holds no \<open>scenario_results\<close> before
  the run. The runner creates the scenario directory under the directory it starts from,
  and opens its output and error files after changing to the parent directory, where
  that directory does not exist: the files cannot be written, and the analysis finds no
  flow statistics under the directory it looks in. The simulator fails for the first
  scenario and exits with 0 for the second.
\<close>

definition fresh_tree_outs :: "string \<Rightarrow> outside" where
  "fresh_tree_outs s =
     (if s = ''scenario_a'' then failing\<lparr>write_ok := False\<rparr>
      else succeeding\<lparr>write_ok := False, flowmon_found := False, csv_found := False\<rparr>)"

text \<open>A configuration whose first scenario gives its image size with a decimal point.\<close>

definition decimal_size_config :: config where
  "decimal_size_config =
     \<lparr>cfg_sections = [''scenario_a'', ''scenario_b''],
      cfg_option = (\<lambda>section_name key.
        if section_name = ''scenario_a'' \<and> key = ''image_size'' then Some ''50000.0''
        else None)\<rparr>"

section \<open>Properties of the parser\<close>

lemma int_required_Inr: "int_required a = Inr v \<Longrightarrow> a = Val v"
  by (simp add: int_required_def split: attr.splits)

lemma num_default_Inr: "num_default a = Inr v \<Longrightarrow> v = counter a"
  by (simp add: num_default_def counter_def split: attr.splits)

lemma parse_flow_Inr:
  assumes "parse_flow flow = Inr (fid, d)"
  shows "int_required (flowId flow) = Inr fid \<and>
         num_default (txPackets flow) = Inr (tx_packets d) \<and>
         num_default (rxPackets flow) = Inr (rx_packets d) \<and>
         num_default (txBytes flow) = Inr (tx_bytes d) \<and>
         num_default (rxBytes flow) = Inr (rx_bytes d) \<and>
         (\<exists>dsum jsum.
            num_default (delaySum flow) = Inr dsum \<and>
            num_default (jitterSum flow) = Inr jsum \<and>
            packet_loss_rate d =
              (if tx_packets d > 0
               then real_of_int (tx_packets d - rx_packets d) / real_of_int (tx_packets d)
               else 0) \<and>
            avg_delay d =
              (if rx_packets d > 0
               then (dsum / 1000000000) / real_of_int (rx_packets d) else 0) \<and>
            avg_jitter d =
              (if rx_packets d > 1
               then (jsum / 1000000000) / real_of_int (rx_packets d - 1) else 0))"
  using assms unfolding parse_flow_def Let_def
  by (simp split: sum.splits) force

lemma parse_flow_metrics:
  assumes "parse_flow flow = Inr (fid, d)"
  shows "derived_from flow fid d"
proof -
  from parse_flow_Inr[OF assms] obtain dsum jsum where
    h: "int_required (flowId flow) = Inr fid"
       "num_default (txPackets flow) = Inr (tx_packets d)"
       "num_default (rxPackets flow) = Inr (rx_packets d)"
       "num_default (txBytes flow) = Inr (tx_bytes d)"
       "num_default (rxBytes flow) = Inr (rx_bytes d)"
       "num_default (delaySum flow) = Inr dsum"
       "num_default (jitterSum flow) = Inr jsum"
    and m: "packet_loss_rate d =
              (if tx_packets d > 0
               then real_of_int (tx_packets d - rx_packets d) / real_of_int (tx_packets d)
               else 0)"
           "avg_delay d =
              (if rx_packets d > 0
               then (dsum / 1000000000) / real_of_int (rx_packets d) else 0)"
           "avg_jitter d =
              (if rx_packets d > 1
               then (jsum / 1000000000) / real_of_int (rx_packets d - 1) else 0)"
    by blast
  have "dsum = counter (delaySum flow)" "jsum = counter (jitterSum flow)"
    using h(6,7) by (simp_all add: num_default_Inr)
  with h(1-5) m show ?thesis
    unfolding derived_from_def
    by (simp add: int_required_Inr num_default_Inr[symmetric])
qed

lemma set_update_subset: "set (AList.update k v al) \<subseteq> insert (k, v) (set al)"
  by (induction al) auto

lemma parse_loop_invariant:
  assumes "parse_loop elems fl = (ok, fl')"
    and "\<And>fid d. (fid, d) \<in> set fl \<Longrightarrow> P fid d"
    and "\<And>flow fid d. flow \<in> set elems \<Longrightarrow> parse_flow flow = Inr (fid, d) \<Longrightarrow> P fid d"
  shows "\<forall>(fid, d) \<in> set fl'. P fid d"
  using assms
proof (induction elems arbitrary: fl)
  case Nil
  then show ?case by auto
next
  case (Cons flow rest)
  show ?case
  proof (cases "parse_flow flow")
    case (Inl e)
    with Cons.prems show ?thesis by auto
  next
    case (Inr p)
    obtain fid d where p: "p = (fid, d)" by (cases p)
    from Cons.prems(1) Inr p
    have run: "parse_loop rest (AList.update fid d fl) = (ok, fl')" by simp
    have new: "P fid d" using Cons.prems(3)[of flow fid d] Inr p by simp
    have inv: "\<And>k v. (k, v) \<in> set (AList.update fid d fl) \<Longrightarrow> P k v"
      using set_update_subset[of fid d fl] new Cons.prems(2) by auto
    show ?thesis
      by (rule Cons.IH[OF run inv]) (use Cons.prems(3) in auto)
  qed
qed

subsection \<open>The dict after the loop\<close>

lemma parse_loop_fold:
  assumes "\<forall>flow \<in> set elems. \<exists>p. parse_flow flow = Inr p"
  shows "parse_loop elems fl =
           (True, fold (\<lambda>p. AList.update (fst p) (snd p)) (map (projr \<circ> parse_flow) elems) fl)"
  using assms
proof (induction elems arbitrary: fl)
  case Nil
  then show ?case by simp
next
  case (Cons flow rest)
  then obtain p where p: "parse_flow flow = Inr p" by auto
  with Cons show ?case by (cases p) simp
qed

lemma remdups_skip: "k \<in> set ys \<Longrightarrow> remdups (xs @ k # ys) = remdups (xs @ ys)"
  by (induction xs) auto

lemma fold_update_keys:
  "map fst (fold (\<lambda>p. AList.update (fst p) (snd p)) kvs al) =
     rev (remdups (rev (map fst al @ map fst kvs)))" if "distinct (map fst al)"
  using that
proof (induction kvs arbitrary: al)
  case Nil
  then show ?case by (simp add: distinct_remdups_id)
next
  case (Cons p kvs)
  have d: "distinct (map fst (AList.update (fst p) (snd p) al))"
    using Cons.prems by (rule AList.distinct_update)
  show ?case
  proof (cases "fst p \<in> set (map fst al)")
    case True
    then have "remdups (rev (map fst kvs) @ fst p # rev (map fst al)) =
               remdups (rev (map fst kvs) @ rev (map fst al))"
      by (intro remdups_skip) simp
    with True Cons.IH[OF d] show ?thesis
      by (simp add: AList.update_keys)
  next
    case False
    with Cons.IH[OF d] show ?thesis
      by (simp add: AList.update_keys)
  qed
qed

lemma fold_update_lookup:
  "map_of (fold (\<lambda>p. AList.update (fst p) (snd p)) kvs al) k =
     (if [p \<leftarrow> kvs. fst p = k] = [] then map_of al k
      else Some (snd (last [p \<leftarrow> kvs. fst p = k])))"
proof (induction kvs arbitrary: al)
  case Nil
  then show ?case by simp
next
  case (Cons p kvs)
  show ?case
    by (simp add: Cons.IH AList.update_conv')
qed

section \<open>Claims about the parser\<close>

text \<open>
  C1. Every record the parser stores was computed from an element of the artifact with
  that flow id: its raw counters are the element's (0 when an attribute is missing), and
  packet_loss_rate = (tx_packets - rx_packets) / tx_packets if tx_packets > 0, else 0;
  avg_delay = (delaySum / 1e9) / rx_packets if rx_packets > 0, else 0;
  avg_jitter = (jitterSum / 1e9) / (rx_packets - 1) if rx_packets > 1, else 0.
  This holds for the records of a run that ends in an error as well.
\<close>

theorem parsed_flow_metrics:
  assumes "parse_flowmon_results [] doc = (ok, fl)" and "(fid, d) \<in> set fl"
  shows "\<exists>flow \<in> set (case doc of None \<Rightarrow> [] | Some elems \<Rightarrow> elems).
           flowId flow = Val fid \<and>
           tx_packets d = counter (txPackets flow) \<and>
           rx_packets d = counter (rxPackets flow) \<and>
           tx_bytes d = counter (txBytes flow) \<and>
           rx_bytes d = counter (rxBytes flow) \<and>
           packet_loss_rate d =
             (if tx_packets d > 0
              then real_of_int (tx_packets d - rx_packets d) / real_of_int (tx_packets d)
              else 0) \<and>
           avg_delay d =
             (if rx_packets d > 0
              then (counter (delaySum flow) / 1000000000) / real_of_int (rx_packets d)
              else 0) \<and>
           avg_jitter d =
             (if rx_packets d > 1
              then (counter (jitterSum flow) / 1000000000) / real_of_int (rx_packets d - 1)
              else 0)"
proof (cases doc)
  case None
  with assms show ?thesis by (simp add: parse_flowmon_results_def)
next
  case (Some elems)
  with assms(1) have run: "parse_loop elems [] = (ok, fl)"
    by (simp add: parse_flowmon_results_def)
  have "\<forall>(k, v) \<in> set fl. \<exists>flow \<in> set elems. derived_from flow k v"
    by (rule parse_loop_invariant[OF run]) (auto dest: parse_flow_metrics)
  with assms(2) obtain flow where "flow \<in> set elems" "derived_from flow fid d"
    by auto
  with Some show ?thesis
    unfolding derived_from_def by auto
qed

theorem parsed_flow_metrics_witness:
  "parse_flowmon_results []
     (Some [\<lparr>flowId = Val 1, txPackets = Val 100, rxPackets = Val 95, txBytes = Val 100000,
             rxBytes = Val 95000, delaySum = Val 2000000000, jitterSum = Val 940000000\<rparr>]) =
     (True, [(1, \<lparr>tx_packets = 100, rx_packets = 95, tx_bytes = 100000, rx_bytes = 95000,
                  packet_loss_rate = 5 / 100, avg_delay = 2 / 95, avg_jitter = 1 / 100\<rparr>)]) \<and>
   (\<exists>flow \<in> set [\<lparr>flowId = Val 1, txPackets = Val 100, rxPackets = Val 95,
                    txBytes = Val 100000, rxBytes = Val 95000, delaySum = Val 2000000000,
                    jitterSum = Val 940000000\<rparr>].
      flowId flow = Val 1 \<and> counter (txPackets flow) = 100 \<and> counter (rxPackets flow) = 95 \<and>
      (counter (delaySum flow) / 1000000000) / 95 = 2 / (95::real) \<and>
      (counter (jitterSum flow) / 1000000000) / real_of_int (95 - 1) = 1 / 100)"
proof -
  let ?e = "\<lparr>flowId = Val 1, txPackets = Val 100, rxPackets = Val 95, txBytes = Val 100000,
             rxBytes = Val 95000, delaySum = Val 2000000000, jitterSum = Val 940000000\<rparr>"
  let ?d = "\<lparr>tx_packets = 100, rx_packets = 95, tx_bytes = 100000, rx_bytes = 95000,
             packet_loss_rate = 5 / 100, avg_delay = 2 / 95, avg_jitter = 1 / 100\<rparr>"
  have run: "parse_flowmon_results [] (Some [?e]) = (True, [(1, ?d)])"
    by (simp add: parse_flowmon_results_def parse_flow_def int_required_def num_default_def)
  have mem: "(1, ?d) \<in> set [(1, ?d)]" by simp
  from parsed_flow_metrics[OF run mem] run show ?thesis
    by simp
qed

text \<open>
  C10. When every element of the artifact converts, elements that repeat a flow id do not
  make the parse fail. The dict then holds one record per distinct flow id, in the order
  in which the ids first occur in the artifact (\<open>remdups\<close> keeps the last occurrence of
  each member, so on the reversed list it keeps the first), so the number of records is
  the number of distinct ids; and the record of an id is the one computed from the last
  element with that id.
\<close>

theorem duplicate_flow_ids:
  assumes "\<forall>flow \<in> set elems. \<exists>p. parse_flow flow = Inr p"
  shows "fst (parse_flowmon_results [] (Some elems)) = True \<and>
         map fst (snd (parse_flowmon_results [] (Some elems))) =
           rev (remdups (rev (map (counter \<circ> flowId) elems))) \<and>
         length (snd (parse_flowmon_results [] (Some elems))) =
           card (set (map (counter \<circ> flowId) elems)) \<and>
         (\<forall>flow \<in> set elems. \<exists>d.
            map_of (snd (parse_flowmon_results [] (Some elems))) (counter (flowId flow)) = Some d \<and>
            parse_flow (last [f \<leftarrow> elems. flowId f = flowId flow]) =
              Inr (counter (flowId flow), d))"
proof -
  let ?kv = "projr \<circ> parse_flow"
  let ?fl = "fold (\<lambda>p. AList.update (fst p) (snd p)) (map ?kv elems) []"
  have run: "parse_flowmon_results [] (Some elems) = (True, ?fl)"
    by (simp add: parse_flowmon_results_def parse_loop_fold[OF assms])
  have key: "fst (?kv flow) = counter (flowId flow)"
    and val: "flowId flow = Val (counter (flowId flow))"
    if "flow \<in> set elems" for flow
  proof -
    from assms that obtain k v where p: "parse_flow flow = Inr (k, v)" by fastforce
    from parse_flow_metrics[OF p] p
    show "fst (?kv flow) = counter (flowId flow)" "flowId flow = Val (counter (flowId flow))"
      by (simp_all add: derived_from_def counter_def)
  qed
  have keys: "map fst (map ?kv elems) = map (counter \<circ> flowId) elems"
    using key by auto
  have "map fst ?fl = rev (remdups (rev (map fst ([]::flows) @ map fst (map ?kv elems))))"
    by (rule fold_update_keys) simp
  then have order: "map fst ?fl = rev (remdups (rev (map (counter \<circ> flowId) elems)))"
    unfolding keys by (simp del: map_map)
  have "length ?fl = length (map fst ?fl)" by simp
  also have "\<dots> = card (set (map (counter \<circ> flowId) elems))"
    unfolding order by (simp add: length_remdups_card_conv)
  finally have count: "length ?fl = card (set (map (counter \<circ> flowId) elems))" .
  have lookup: "\<exists>d. map_of ?fl (counter (flowId flow)) = Some d \<and>
                    parse_flow (last [f \<leftarrow> elems. flowId f = flowId flow]) =
                      Inr (counter (flowId flow), d)"
    if mem: "flow \<in> set elems" for flow
  proof -
    let ?same = "[f \<leftarrow> elems. flowId f = flowId flow]"
    have sel: "[p \<leftarrow> map ?kv elems. fst p = counter (flowId flow)] = map ?kv ?same"
    proof -
      have "fst (?kv f) = counter (flowId flow) \<longleftrightarrow> flowId f = flowId flow"
        if "f \<in> set elems" for f
        using key[OF that] val[OF that] val[OF mem] by (metis attr.inject)
      then show ?thesis
        by (simp add: filter_map comp_def cong: filter_cong)
    qed
    have ne: "?same \<noteq> []"
      using mem by (auto simp: filter_empty_conv)
    then have lastmem: "last ?same \<in> set elems" "flowId (last ?same) = flowId flow"
      using last_in_set[OF ne] by auto
    from assms lastmem(1) obtain k v where p: "parse_flow (last ?same) = Inr (k, v)"
      by fastforce
    have k: "k = counter (flowId flow)"
      using key[OF lastmem(1)] p lastmem(2) by simp
    have "map_of ?fl (counter (flowId flow)) = Some (snd (last (map ?kv ?same)))"
      using ne by (simp add: fold_update_lookup sel del: map_map)
    also have "last (map ?kv ?same) = ?kv (last ?same)"
      using ne by (simp add: last_map)
    finally have "map_of ?fl (counter (flowId flow)) = Some v"
      using p by (simp add: comp_def)
    with p k show ?thesis by (simp add: comp_def)
  qed
  from run order count lookup show ?thesis by simp
qed

theorem duplicate_flow_ids_witness:
  "parse_flowmon_results []
     (Some
      [\<lparr>flowId = Val 7, txPackets = Val 10, rxPackets = Absent, txBytes = Absent,
        rxBytes = Absent, delaySum = Absent, jitterSum = Absent\<rparr>,
       \<lparr>flowId = Val 3, txPackets = Val 5, rxPackets = Absent, txBytes = Absent,
        rxBytes = Absent, delaySum = Absent, jitterSum = Absent\<rparr>,
       \<lparr>flowId = Val 7, txPackets = Val 20, rxPackets = Absent, txBytes = Absent,
        rxBytes = Absent, delaySum = Absent, jitterSum = Absent\<rparr>]) =
     (True,
      [(7, \<lparr>tx_packets = 20, rx_packets = 0, tx_bytes = 0, rx_bytes = 0,
             packet_loss_rate = 1, avg_delay = 0, avg_jitter = 0\<rparr>),
       (3, \<lparr>tx_packets = 5, rx_packets = 0, tx_bytes = 0, rx_bytes = 0,
             packet_loss_rate = 1, avg_delay = 0, avg_jitter = 0\<rparr>)]) \<and>
   rev (remdups (rev (map (counter \<circ> flowId)
      [\<lparr>flowId = Val 7, txPackets = Val 10, rxPackets = Absent, txBytes = Absent,
        rxBytes = Absent, delaySum = Absent, jitterSum = Absent\<rparr>,
       \<lparr>flowId = Val 3, txPackets = Val 5, rxPackets = Absent, txBytes = Absent,
        rxBytes = Absent, delaySum = Absent, jitterSum = Absent\<rparr>,
       \<lparr>flowId = Val 7, txPackets = Val 20, rxPackets = Absent, txBytes = Absent,
        rxBytes = Absent, delaySum = Absent, jitterSum = Absent\<rparr>]))) = [7, 3]"
proof -
  let ?e = "\<lambda>i n. \<lparr>flowId = Val i, txPackets = Val n, rxPackets = Absent, txBytes = Absent,
                     rxBytes = Absent, delaySum = Absent, jitterSum = Absent\<rparr>"
  let ?E = "[?e 7 10, ?e 3 5, ?e 7 20]"
  have conv: "\<forall>flow \<in> set ?E. \<exists>p. parse_flow flow = Inr p"
    by (simp add: parse_flow_def int_required_def num_default_def)
  have run: "parse_flowmon_results [] (Some ?E) =
     (True,
      [(7, \<lparr>tx_packets = 20, rx_packets = 0, tx_bytes = 0, rx_bytes = 0,
             packet_loss_rate = 1, avg_delay = 0, avg_jitter = 0\<rparr>),
       (3, \<lparr>tx_packets = 5, rx_packets = 0, tx_bytes = 0, rx_bytes = 0,
             packet_loss_rate = 1, avg_delay = 0, avg_jitter = 0\<rparr>)])"
    by (simp add: parse_flowmon_results_def parse_flow_def int_required_def num_default_def)
  from duplicate_flow_ids[OF conv] run show ?thesis
    by simp
qed

section \<open>Claims about the report\<close>

lemma expected_packets_ceiling:
  "expected_packets image_size = \<lceil>real_of_int image_size / 1024\<rceil>"
proof -
  define k where "k = (image_size + 1023) div 1024"
  have lo: "1024 * k \<le> image_size + 1023" and hi: "image_size + 1023 < 1024 * k + 1024"
    unfolding k_def by linarith+
  have "real_of_int k - 1 < real_of_int image_size / 1024"
    using lo by (simp add: field_simps)
  moreover have "real_of_int image_size / 1024 \<le> real_of_int k"
    using hi by (simp add: field_simps)
  ultimately have "\<lceil>real_of_int image_size / 1024\<rceil> = k"
    by (rule ceiling_unique)
  then show ?thesis
    by (simp add: expected_packets_def k_def)
qed

text \<open>
  C8, as amended. The delivery efficiency of a flow is rx_packets / expected_packets if
  expected_packets > 0, else 0, where expected_packets is the ceiling of
  image_size / 1024. The analysis has no packet size among its parameters: 1024 is a
  constant of the code, whatever packet size the scenario configures.
\<close>

theorem delivery_efficiency_formula:
  "expected_packets image_size = \<lceil>real_of_int image_size / 1024\<rceil> \<and>
   delivery_efficiency d image_size =
     (if \<lceil>real_of_int image_size / 1024\<rceil> > 0
      then real_of_int (rx_packets d) / real_of_int \<lceil>real_of_int image_size / 1024\<rceil>
      else 0)"
proof -
  have e: "expected_packets image_size = \<lceil>real_of_int image_size / 1024\<rceil>"
    by (rule expected_packets_ceiling)
  have "delivery_efficiency d image_size =
          (if expected_packets image_size > 0
           then real_of_int (rx_packets d) / real_of_int (expected_packets image_size) else 0)"
    by (simp add: delivery_efficiency_def)
  with e show ?thesis by simp
qed

theorem delivery_efficiency_formula_witness:
  "expected_packets 50000 = \<lceil>real_of_int 50000 / 1024\<rceil> \<and>
   expected_packets 50000 = 49 \<and>
   delivery_efficiency \<lparr>tx_packets = 100, rx_packets = 95, tx_bytes = 100000, rx_bytes = 95000,
     packet_loss_rate = 5 / 100, avg_delay = 2 / 95, avg_jitter = 1 / 100\<rparr> 50000 = 95 / 49"
proof -
  let ?d = "\<lparr>tx_packets = 100, rx_packets = 95, tx_bytes = 100000, rx_bytes = 95000,
     packet_loss_rate = 5 / 100, avg_delay = 2 / 95, avg_jitter = 1 / 100\<rparr>"
  have "expected_packets 50000 = 49"
    by (simp add: expected_packets_def)
  moreover have "delivery_efficiency ?d 50000 = 95 / 49"
    by (simp add: delivery_efficiency_def expected_packets_def)
  ultimately show ?thesis
    using delivery_efficiency_formula[of 50000 ?d] by simp
qed

text \<open>
  The claim as written divides by the packet size of the run. A scenario that configures
  a packet size of 512 hands it to the simulator, but the command that starts the
  analysis carries no packet size, and the analysis expects 49 packets for an image of
  50000 bytes where the claim expects 98: for 95 received packets the efficiency is
  95/49, not 95/98.
\<close>

theorem delivery_efficiency_counterexample:
  "simulator_command small_packet_config ''scenario_small'' ! 6 = ''--packetSize=512'' \<and>
   analysis_command example_lib ''scenario_small'' 10 50000 =
     [''python3'', ''analyze_results.py'',
      ''--flowmon'', ''scenario_results/scenario_small/flowmon-results.xml'',
      ''--output'', ''scenario_results/scenario_small'',
      ''--simulation-time'', ''10.0'', ''--image-size'', ''50000'', ''--no-plots''] \<and>
   expected_packets 50000 = 49 \<and>
   specified_expected_packets 50000 512 = 98 \<and>
   delivery_efficiency \<lparr>tx_packets = 100, rx_packets = 95, tx_bytes = 100000, rx_bytes = 95000,
     packet_loss_rate = 5 / 100, avg_delay = 2 / 95, avg_jitter = 1 / 100\<rparr> 50000 = 95 / 49 \<and>
   delivery_efficiency \<lparr>tx_packets = 100, rx_packets = 95, tx_bytes = 100000, rx_bytes = 95000,
     packet_loss_rate = 5 / 100, avg_delay = 2 / 95, avg_jitter = 1 / 100\<rparr> 50000 \<noteq>
     95 / real_of_int (specified_expected_packets 50000 512)"
proof -
  have cmd: "simulator_command small_packet_config ''scenario_small'' ! 6 = ''--packetSize=512''"
    by (simp add: simulator_command_def get_option_def small_packet_config_def Let_def)
  have an: "analysis_command example_lib ''scenario_small'' 10 50000 =
     [''python3'', ''analyze_results.py'',
      ''--flowmon'', ''scenario_results/scenario_small/flowmon-results.xml'',
      ''--output'', ''scenario_results/scenario_small'',
      ''--simulation-time'', ''10.0'', ''--image-size'', ''50000'', ''--no-plots'']"
    by (simp add: analysis_command_def example_lib_def path_join_def results_dir_def Let_def
          str_int_def str_nat.simps)
  have code: "expected_packets 50000 = 49"
    by (simp add: expected_packets_def)
  have "\<lceil>real_of_int 50000 / real_of_int 512\<rceil> = - (- 50000 div 512)"
    by (rule ceiling_divide_eq_div)
  then have spec: "specified_expected_packets 50000 512 = 98"
    by (simp add: specified_expected_packets_def)
  have eff: "delivery_efficiency \<lparr>tx_packets = 100, rx_packets = 95, tx_bytes = 100000,
     rx_bytes = 95000, packet_loss_rate = 5 / 100, avg_delay = 2 / 95,
     avg_jitter = 1 / 100\<rparr> 50000 = 95 / 49"
    by (simp add: delivery_efficiency_def expected_packets_def)
  show ?thesis
    unfolding eff spec using cmd an code by simp
qed

lemma overall_throughput_positive:
  assumes "simulation_time > 0"
  shows "overall_throughput fl simulation_time =
           Inr (real_of_int (sum_list (map (rx_bytes \<circ> snd) fl) * 8) / (simulation_time * 1000000))"
  using assms by (simp add: overall_throughput_def)

text \<open>
  C2. The claim asks the overall throughput to be 0 when the duration is not positive, as
  \<open>calculate_throughput\<close> returns for one flow. The overall computation has no such
  guard: with a duration of 0 it raises ZeroDivisionError, so no report is produced, and
  with a negative duration it yields a negative throughput. The per-flow function
  returns 0 at both.
\<close>

theorem overall_throughput_unguarded:
  "overall_throughput
     [(1, \<lparr>tx_packets = 100, rx_packets = 95, tx_bytes = 100000, rx_bytes = 95000,
           packet_loss_rate = 5 / 100, avg_delay = 2 / 95, avg_jitter = 1 / 100\<rparr>)] 0 =
     Inl ZeroDivisionError \<and>
   generate_performance_report py
     [(1, \<lparr>tx_packets = 100, rx_packets = 95, tx_bytes = 100000, rx_bytes = 95000,
           packet_loss_rate = 5 / 100, avg_delay = 2 / 95, avg_jitter = 1 / 100\<rparr>)] 0 50000 =
     Inl ZeroDivisionError \<and>
   calculate_throughput
     \<lparr>tx_packets = 100, rx_packets = 95, tx_bytes = 100000, rx_bytes = 95000,
      packet_loss_rate = 5 / 100, avg_delay = 2 / 95, avg_jitter = 1 / 100\<rparr> 0 = 0 \<and>
   overall_throughput
     [(1, \<lparr>tx_packets = 100, rx_packets = 95, tx_bytes = 100000, rx_bytes = 95000,
           packet_loss_rate = 5 / 100, avg_delay = 2 / 95, avg_jitter = 1 / 100\<rparr>)] (- 10) =
     Inr (- (76 / 1000)) \<and>
   calculate_throughput
     \<lparr>tx_packets = 100, rx_packets = 95, tx_bytes = 100000, rx_bytes = 95000,
      packet_loss_rate = 5 / 100, avg_delay = 2 / 95, avg_jitter = 1 / 100\<rparr> (- 10) = 0"
  by (simp add: overall_throughput_def generate_performance_report_def calculate_throughput_def)

subsection \<open>Labels\<close>

lemma concat_nth_blocks:
  assumes "\<forall>b \<in> set bs. length b = n" and "i < length bs" and "j < n"
  shows "concat bs ! (n * i + j) = bs ! i ! j"
  using assms
proof (induction bs arbitrary: i)
  case Nil
  then show ?case by simp
next
  case (Cons b bs)
  show ?case
  proof (cases i)
    case 0
    with Cons.prems show ?thesis by (simp add: nth_append)
  next
    case (Suc i')
    with Cons.prems have "concat bs ! (n * i' + j) = bs ! i' ! j"
      by (intro Cons.IH) auto
    moreover have "n * i + j = length b + (n * i' + j)"
      using Suc Cons.prems(1) by simp
    ultimately show ?thesis
      using Suc by (simp add: nth_append)
  qed
qed

lemma footballer_label:
  "footballer K =
     (if K < 5 then [''Messi'', ''Ronaldo'', ''Neymar'', ''Mbappe'', ''Haaland''] ! K
      else ''Player_'' @ str_nat K)"
proof (cases "K < 5")
  case True
  then consider "K = 0" | "K = 1" | "K = 2" | "K = 3" | "K = 4" by linarith
  then show ?thesis
    by cases (simp_all add: footballer_def footballer_names_def)
next
  case False
  then show ?thesis
    by (simp add: footballer_def footballer_names_def)
qed

lemma length_flow_block [simp]:
  "length (flow_block py simulation_time image_size i kv) = 9"
  by (simp add: flow_block_def Let_def)

lemma hd_flow_block:
  "flow_block py simulation_time image_size i kv ! 0 =
     ''Flow '' @ str_int (fst kv) @ '' - '' @ footballer i @ '':''"
  by (simp add: flow_block_def Let_def)

text \<open>
  C3, as amended. The label of a flow depends on its position K in the dict only, not on
  its flow id: it is the Kth of the five names for K < 5, and "Player_K" (not
  "Entity_K") from there on. It is the label on the first of the nine lines of the flow's
  block in the report, and the one in the flow's row of the tabular export.
\<close>

theorem positional_labels:
  assumes "K < length fl"
  shows "per_flow_lines py simulation_time image_size fl ! (9 * K) =
           ''Flow '' @ str_int (fst (fl ! K)) @ '' - '' @
           (if K < 5 then [''Messi'', ''Ronaldo'', ''Neymar'', ''Mbappe'', ''Haaland''] ! K
            else ''Player_'' @ str_nat K) @ '':'' \<and>
         Footballer (csv_data fl simulation_time ! K) =
           (if K < 5 then [''Messi'', ''Ronaldo'', ''Neymar'', ''Mbappe'', ''Haaland''] ! K
            else ''Player_'' @ str_nat K)"
proof -
  let ?blocks = "map (\<lambda>(i, kv). flow_block py simulation_time image_size i kv)
                   (List.enumerate 0 fl)"
  have en: "List.enumerate 0 fl ! K = (K, fl ! K)"
    using assms by (simp add: nth_enumerate_eq)
  have "concat ?blocks ! (9 * K + 0) = ?blocks ! K ! 0"
    by (rule concat_nth_blocks) (use assms in auto)
  also have "?blocks ! K = flow_block py simulation_time image_size K (fl ! K)"
    using assms en by simp
  finally have line: "per_flow_lines py simulation_time image_size fl ! (9 * K) =
      ''Flow '' @ str_int (fst (fl ! K)) @ '' - '' @ footballer K @ '':''"
    by (simp add: per_flow_lines_def hd_flow_block)
  have "csv_data fl simulation_time ! K =
          (\<lambda>(i, (flow_id, d)).
            \<lparr>Flow_ID = flow_id, Footballer = footballer i, Packets_Sent = tx_packets d,
             Packets_Received = rx_packets d, Bytes_Sent = tx_bytes d,
             Bytes_Received = rx_bytes d, Packet_Loss_Rate_pct = packet_loss_rate d * 100,
             Avg_Delay_ms = avg_delay d * 1000, Avg_Jitter_ms = avg_jitter d * 1000,
             Throughput_Mbps = calculate_throughput d simulation_time,
             Success_Rate_pct = (1 - packet_loss_rate d) * 100\<rparr>) (K, fl ! K)"
    using assms en by (simp add: csv_data_def)
  then have row: "Footballer (csv_data fl simulation_time ! K) = footballer K"
    by (simp add: case_prod_beta)
  from line row show ?thesis
    unfolding footballer_label by simp
qed

theorem positional_labels_witness:
  "5 < length (map (\<lambda>i. (i, \<lparr>tx_packets = 100, rx_packets = 95, tx_bytes = 100000,
          rx_bytes = 95000, packet_loss_rate = 5 / 100, avg_delay = 2 / 95,
          avg_jitter = 1 / 100\<rparr>)) [60, 50, 40, 30, 20, 10]) \<and>
   per_flow_lines example_py 10 50000
     (map (\<lambda>i. (i, \<lparr>tx_packets = 100, rx_packets = 95, tx_bytes = 100000,
          rx_bytes = 95000, packet_loss_rate = 5 / 100, avg_delay = 2 / 95,
          avg_jitter = 1 / 100\<rparr>)) [60, 50, 40, 30, 20, 10]) ! 45 = ''Flow 10 - Player_5:'' \<and>
   Footballer (csv_data
     (map (\<lambda>i. (i, \<lparr>tx_packets = 100, rx_packets = 95, tx_bytes = 100000,
          rx_bytes = 95000, packet_loss_rate = 5 / 100, avg_delay = 2 / 95,
          avg_jitter = 1 / 100\<rparr>)) [60, 50, 40, 30, 20, 10]) 10 ! 5) = ''Player_5''"
proof -
  let ?d = "\<lparr>tx_packets = 100, rx_packets = 95, tx_bytes = 100000,
          rx_bytes = 95000, packet_loss_rate = 5 / 100, avg_delay = 2 / 95,
          avg_jitter = 1 / 100\<rparr>"
  let ?six = "map (\<lambda>i. (i, ?d)) [60, 50, 40, 30, 20, 10]"
  have len: "5 < length ?six" by simp
  have s5: "str_nat 5 = ''5''" and s10: "str_int 10 = ''10''"
    by (simp_all add: str_int_def str_nat.simps)
  from positional_labels[OF len, of example_py 10 50000] len show ?thesis
    by (simp add: s5 s10)
qed

text \<open>
  The claim as written names the placeholder "Entity_5" for the sixth of six flows; the
  label in its row of the export is "Player_5".
\<close>

theorem placeholder_label_counterexample:
  "Footballer (csv_data
     (map (\<lambda>i. (i, \<lparr>tx_packets = 100, rx_packets = 95, tx_bytes = 100000,
          rx_bytes = 95000, packet_loss_rate = 5 / 100, avg_delay = 2 / 95,
          avg_jitter = 1 / 100\<rparr>)) [60, 50, 40, 30, 20, 10]) 10 ! 5) = ''Player_5'' \<and>
   Footballer (csv_data
     (map (\<lambda>i. (i, \<lparr>tx_packets = 100, rx_packets = 95, tx_bytes = 100000,
          rx_bytes = 95000, packet_loss_rate = 5 / 100, avg_delay = 2 / 95,
          avg_jitter = 1 / 100\<rparr>)) [60, 50, 40, 30, 20, 10]) 10 ! 5) \<noteq> ''Entity_5''"
proof -
  have s5: "str_nat 5 = ''5''"
    by (simp add: str_nat.simps)
  have "footballer 5 = ''Player_5''"
    by (simp add: footballer_def footballer_names_def s5)
  then show ?thesis
    by (simp add: csv_data_def enumerate_eq_zip upt_rec numeral_nat nth_Cons')
qed

section \<open>Claims about the entry point of the analysis\<close>



lemma main_analyze_results_report:
  assumes "fs (arg_flowmon a) = Some bytes"
    and "parse_flowmon_results [] (xml_flows py bytes) = (True, fl)"
    and "generate_performance_report py fl (arg_simulation_time a) (arg_image_size a) = Inr report"
  shows "main_analyze_results py a fs =
           ((if arg_no_plots a then Inr 0
             else case visualize py fl (arg_output a) of
                    RaisedOther e \<Rightarrow> Inl e | _ \<Rightarrow> Inr 0),
            fs(arg_output a @ ''/performance_report.txt'' \<mapsto> report,
               arg_output a @ ''/simulation_results.csv'' \<mapsto>
                 to_csv py (csv_data fl (arg_simulation_time a))))"
  using assms
  by (simp add: main_analyze_results_def export_csv_report_def Let_def split: plot_result.splits)

lemma main_analyze_results_no_report:
  assumes "fs (arg_flowmon a) = Some bytes"
    and "parse_flowmon_results [] (xml_flows py bytes) = (True, fl)"
    and "generate_performance_report py fl (arg_simulation_time a) (arg_image_size a) = Inl e"
  shows "main_analyze_results py a fs = (Inl e, fs)"
  using assms by (simp add: main_analyze_results_def)

text \<open>
  C9. Let the artifact be parsed, let the simulation time be other than 0, and let the
  run of the analysis leave the artifact as it found it. Then the report is generated
  from the flows of the artifact, and the run leaves its text in
  \<open>performance_report.txt\<close> and the serialised rows of the flows in
  \<open>simulation_results.csv\<close>, both under the output directory; and a second run with the
  same arguments, on the files the first run left, ends as the first did and leaves
  every file, these two among them, with the same bytes.
\<close>

theorem analysis_rerun_identical:
  assumes "fs (arg_flowmon a) = Some bytes"
    and "parse_flowmon_results [] (xml_flows py bytes) = (True, fl)"
    and "arg_simulation_time a \<noteq> 0"
    and "snd (main_analyze_results py a fs) (arg_flowmon a) = fs (arg_flowmon a)"
  shows "\<exists>report.
           generate_performance_report py fl (arg_simulation_time a) (arg_image_size a) =
             Inr report \<and>
           snd (main_analyze_results py a fs) (arg_output a @ ''/performance_report.txt'') =
             Some report \<and>
           snd (main_analyze_results py a fs) (arg_output a @ ''/simulation_results.csv'') =
             Some (to_csv py (csv_data fl (arg_simulation_time a))) \<and>
           main_analyze_results py a (snd (main_analyze_results py a fs)) =
             main_analyze_results py a fs"
proof -
  let ?rp = "arg_output a @ ''/performance_report.txt''"
  let ?cp = "arg_output a @ ''/simulation_results.csv''"
  let ?csv = "to_csv py (csv_data fl (arg_simulation_time a))"
  let ?r = "if arg_no_plots a then Inr 0
            else case visualize py fl (arg_output a) of
                   RaisedOther e \<Rightarrow> Inl e | _ \<Rightarrow> Inr 0"
  obtain report where
    rep: "generate_performance_report py fl (arg_simulation_time a) (arg_image_size a) =
            Inr report"
    using assms(3) by (simp add: generate_performance_report_def overall_throughput_def Let_def)
  note run = main_analyze_results_report[of fs a bytes py fl report, OF assms(1,2) rep]
  have w: "snd (main_analyze_results py a fs) = fs(?rp \<mapsto> report, ?cp \<mapsto> ?csv)"
    unfolding run by simp
  have differ: "?rp \<noteq> ?cp"
    by simp
  have rp: "snd (main_analyze_results py a fs) ?rp = Some report"
    unfolding w using differ by simp
  have cp: "snd (main_analyze_results py a fs) ?cp = Some ?csv"
    unfolding w by simp
  have again: "(fs(?rp \<mapsto> report, ?cp \<mapsto> ?csv)) (arg_flowmon a) = Some bytes"
    using assms(4) assms(1) unfolding w by simp
  have same: "(fs(?rp \<mapsto> report, ?cp \<mapsto> ?csv))(?rp \<mapsto> report, ?cp \<mapsto> ?csv) =
              fs(?rp \<mapsto> report, ?cp \<mapsto> ?csv)"
    by (auto simp: fun_eq_iff)
  have "main_analyze_results py a (fs(?rp \<mapsto> report, ?cp \<mapsto> ?csv)) =
          (?r, fs(?rp \<mapsto> report, ?cp \<mapsto> ?csv))"
    using main_analyze_results_report[of "fs(?rp \<mapsto> report, ?cp \<mapsto> ?csv)" a bytes py fl
        report, OF again assms(2) rep] same
    by simp
  then have "main_analyze_results py a (snd (main_analyze_results py a fs)) =
               main_analyze_results py a fs"
    unfolding w run by simp
  with rep rp cp show ?thesis by blast
qed

theorem analysis_rerun_identical_witness:
  "snd (main_analyze_results example_py example_args
          [''flowmon-results.xml'' \<mapsto> ''<FlowMonitor/>'']) ''results/performance_report.txt'' =
     Some (join_lines
       [replicate 60 CHR ''='',
        ''FOOTBALL NETWORK SIMULATION - PERFORMANCE REPORT'',
        replicate 60 CHR ''='',
        [],
        ''SIMULATION PARAMETERS:'',
        ''  Simulation Time: ? seconds'',
        ''  Image Size: 50000 bytes'',
        ''  Number of Flows: 1'',
        [],
        ''OVERALL NETWORK PERFORMANCE:'',
        ''  Total Packets Sent: 100'',
        ''  Total Packets Received: 95'',
        ''  Overall Packet Loss Rate: ?'',
        ''  Overall Throughput: ? Mbps'',
        [],
        ''PER-FOOTBALLER TRANSMISSION STATISTICS:'',
        replicate 60 CHR ''-'',
        ''Flow 1 - Messi:'',
        ''  Packets: 100 sent, 95 received'',
        ''  Bytes: 100000 sent, 95000 received'',
        ''  Packet Loss Rate: ?'',
        ''  Average Delay: ? seconds'',
        ''  Average Jitter: ? seconds'',
        ''  Throughput: ? Mbps'',
        ''  Delivery Efficiency: ?'',
        []]) \<and>
   snd (main_analyze_results example_py example_args
          [''flowmon-results.xml'' \<mapsto> ''<FlowMonitor/>'']) ''results/simulation_results.csv'' =
     Some ''1,Messi;'' \<and>
   main_analyze_results example_py example_args
     (snd (main_analyze_results example_py example_args
             [''flowmon-results.xml'' \<mapsto> ''<FlowMonitor/>''])) =
   main_analyze_results example_py example_args
     [''flowmon-results.xml'' \<mapsto> ''<FlowMonitor/>'']"
proof -
  let ?d = "\<lparr>tx_packets = 100, rx_packets = 95, tx_bytes = 100000, rx_bytes = 95000,
             packet_loss_rate = 1 / 20, avg_delay = 2 / 95, avg_jitter = 1 / 100\<rparr>"
  let ?fs = "[''flowmon-results.xml'' \<mapsto> ''<FlowMonitor/>'']"
  let ?report = "join_lines
       [replicate 60 CHR ''='',
        ''FOOTBALL NETWORK SIMULATION - PERFORMANCE REPORT'',
        replicate 60 CHR ''='',
        [],
        ''SIMULATION PARAMETERS:'',
        ''  Simulation Time: ? seconds'',
        ''  Image Size: 50000 bytes'',
        ''  Number of Flows: 1'',
        [],
        ''OVERALL NETWORK PERFORMANCE:'',
        ''  Total Packets Sent: 100'',
        ''  Total Packets Received: 95'',
        ''  Overall Packet Loss Rate: ?'',
        ''  Overall Throughput: ? Mbps'',
        [],
        ''PER-FOOTBALLER TRANSMISSION STATISTICS:'',
        replicate 60 CHR ''-'',
        ''Flow 1 - Messi:'',
        ''  Packets: 100 sent, 95 received'',
        ''  Bytes: 100000 sent, 95000 received'',
        ''  Packet Loss Rate: ?'',
        ''  Average Delay: ? seconds'',
        ''  Average Jitter: ? seconds'',
        ''  Throughput: ? Mbps'',
        ''  Delivery Efficiency: ?'',
        []]"
  have src: "?fs (arg_flowmon example_args) = Some ''<FlowMonitor/>''"
    by (simp add: example_args_def)
  have parse: "parse_flowmon_results [] (xml_flows example_py ''<FlowMonitor/>'') =
                 (True, [(1, ?d)])"
    by (simp add: parse_flowmon_results_def parse_flow_def int_required_def num_default_def
          example_py_def)
  have n: "str_int 100 = ''100''" "str_int 95 = ''95''" "str_int 100000 = ''100000''"
    "str_int 95000 = ''95000''" "str_int 50000 = ''50000''" "str_int 1 = ''1''"
    "str_nat (Suc 0) = ''1''"
    by (simp_all add: str_int_def str_nat.simps)
  have f: "str_float example_py x = ''?''" "fmt_2f example_py x = ''?''"
    "fmt_4f example_py x = ''?''" "fmt_pct example_py x = ''?''" for x
    by (simp_all add: example_py_def)
  have lines: "per_flow_lines example_py 10 50000 [(1, ?d)] =
      [''Flow 1 - Messi:'',
       ''  Packets: 100 sent, 95 received'',
       ''  Bytes: 100000 sent, 95000 received'',
       ''  Packet Loss Rate: ?'',
       ''  Average Delay: ? seconds'',
       ''  Average Jitter: ? seconds'',
       ''  Throughput: ? Mbps'',
       ''  Delivery Efficiency: ?'',
       []]"
    by (simp add: per_flow_lines_def flow_block_def Let_def n f footballer_def
          footballer_names_def)
  have rep: "generate_performance_report example_py [(1, ?d)]
               (arg_simulation_time example_args) (arg_image_size example_args) = Inr ?report"
    by (simp add: generate_performance_report_def overall_throughput_def example_args_def
          lines n f Let_def)
  have csv: "to_csv example_py (csv_data [(1, ?d)] (arg_simulation_time example_args)) =
               ''1,Messi;''"
    by (simp add: csv_data_def example_py_def n footballer_def footballer_names_def)
  have out: "arg_output example_args @ ''/performance_report.txt'' =
               ''results/performance_report.txt''"
    "arg_output example_args @ ''/simulation_results.csv'' = ''results/simulation_results.csv''"
    by (simp_all add: example_args_def)
  note run = main_analyze_results_report[of ?fs example_args "''<FlowMonitor/>''" example_py
      "[(1, ?d)]" ?report, OF src parse rep]
  have kept: "snd (main_analyze_results example_py example_args ?fs) (arg_flowmon example_args) =
                ?fs (arg_flowmon example_args)"
    unfolding run by (simp add: example_args_def)
  have time: "arg_simulation_time example_args \<noteq> 0"
    by (simp add: example_args_def)
  from analysis_rerun_identical[OF src parse time kept] rep show ?thesis
    unfolding csv out by auto
qed

section \<open>Properties of the runner\<close>

subsection \<open>Effects are appended, and the directory is kept\<close>

lemma cwd_emit [simp]: "cwd (emit c w) = cwd w"
  by (simp add: emit_def)

lemma trace_emit [simp]: "trace (emit c w) = trace w @ [(cwd w, c)]"
  by (simp add: emit_def)

lemma cwd_after [simp]: "cwd (after t w) = cwd w"
  by (simp add: after_def)

lemma trace_after [simp]: "trace (after t w) = t @ trace w"
  by (simp add: after_def)

lemma emit_after [simp]: "emit c (after t w) = after t (emit c w)"
  by (simp add: after_def emit_def)

lemma chdir_after [simp]: "(after t w)\<lparr>cwd := d\<rparr> = after t (w\<lparr>cwd := d\<rparr>)"
  by (simp add: after_def)



lemma move_files_cwd: "cwd (snd (move_files out dir names w)) = cwd w"
  by (induction names arbitrary: w) simp_all






section \<open>Claims about the runner\<close>

text \<open>
  C7. Whatever the outside answers, the working directory after \<open>run_scenario\<close> is the
  one before it: on the early return, after success, after a failed process, after the
  timeout and after any exception caught in the \<open>try\<close> statement.
\<close>

theorem working_directory_restored:
  "cwd (snd (run_scenario lib cfg out scenario_name w)) = cwd w"
  by (simp add: run_scenario_def Let_def)

theorem working_directory_restored_witness:
  "cwd (snd (run_scenario example_lib example_config timing_out ''scenario_a'' example_world)) =
     [''ns-3'', ''scratch'', ''CN-ns3-project''] \<and>
   cwd (snd (run_scenario example_lib example_config succeeding ''scenario_a'' example_world)) =
     [''ns-3'', ''scratch'', ''CN-ns3-project''] \<and>
   cwd (snd (run_scenario example_lib example_config failing ''scenario_a'' example_world)) =
     [''ns-3'', ''scratch'', ''CN-ns3-project''] \<and>
   trace (snd (run_scenario example_lib example_config timing_out ''scenario_a'' example_world)) ! 1 =
     ([''ns-3'', ''scratch''], Run (simulator_command example_config ''scenario_a''))"
proof -
  have "trace (snd (run_scenario example_lib example_config timing_out ''scenario_a''
            example_world)) ! 1 =
          ([''ns-3'', ''scratch''], Run (simulator_command example_config ''scenario_a''))"
    by (simp add: run_scenario_def run_scenario_try_def Let_def example_config_def
          timing_out_def example_world_def)
  then show ?thesis
    using working_directory_restored[of example_lib example_config timing_out "''scenario_a''"
            example_world]
      working_directory_restored[of example_lib example_config succeeding "''scenario_a''"
            example_world]
      working_directory_restored[of example_lib example_config failing "''scenario_a''"
            example_world]
    by (simp add: example_world_def)
qed







subsection \<open>The loop over the scenarios\<close>













lemma get_scenarios_nonempty_name: "s \<in> set (get_scenarios cfg) \<Longrightarrow> s \<noteq> []"
  by (auto simp: get_scenarios_def)




text \<open>
  C5. The claim asks that of two scenarios, the first failing and the second succeeding,
  the second is analysed and is the one scenario of the comparison report. The code does
  not do so in a directory tree that holds no \<open>scenario_results\<close> before the run. The
  simulator of the second scenario exits with 0, but \<open>run_scenario\<close> has created the
  scenario directory under the directory it started from and opens the output file
  after changing to the parent directory: the file cannot be opened, the handler answers
  \<open>False\<close>, and the ledger holds both scenarios as failed. No analysis is started, no
  comparison report is written, and \<open>main\<close> returns 1. The third and fourth parts of the
  statement show, on answers that accept the write, where the directory is created and
  where the file is written. The last two parts show a second way in which one scenario
  stops the others: when the image size of a scenario does not convert with \<open>int(...)\<close>
  and its run succeeds, the ValueError of \<open>analyze_scenario_results\<close> ends \<open>main\<close> before
  the next scenario is run.
\<close>

theorem batch_in_fresh_tree:
  "main_run_scenarios example_lib example_config fresh_tree_outs
     \<lparr>arg_list = False, arg_analyze_only = None, arg_compare = False, arg_scenario = None\<rparr>
     example_world =
     (Inr 1,
      \<lparr>cwd = [''ns-3'', ''scratch'', ''CN-ns3-project''],
       trace =
         [([''ns-3'', ''scratch'', ''CN-ns3-project''], Makedirs ''scenario_results''),
          ([''ns-3'', ''scratch'', ''CN-ns3-project''], Makedirs ''scenario_results/scenario_a''),
          ([''ns-3'', ''scratch''],
           Run [''../ns3'', ''run'', ''CN-ns3-project/footballer-network-sim'', ''--'',
                ''--simulationTime=10.0'', ''--imageSize=50000'', ''--packetSize=1024'',
                ''--dataRate=1Mbps'', ''--delay=10ms'', ''--enableNetAnim=true'']),
          ([''ns-3'', ''scratch''], Say (Scenario_failed 1 ''boom'')),
          ([''ns-3'', ''scratch''], Say Error_running_scenario),
          ([''ns-3'', ''scratch'', ''CN-ns3-project''], Makedirs ''scenario_results/scenario_b''),
          ([''ns-3'', ''scratch''],
           Run [''../ns3'', ''run'', ''CN-ns3-project/footballer-network-sim'', ''--'',
                ''--simulationTime=10.0'', ''--imageSize=50000'', ''--packetSize=1024'',
                ''--dataRate=5Mbps'', ''--delay=2ms'', ''--enableNetAnim=true'']),
          ([''ns-3'', ''scratch''], Say (Scenario_completed (1 / 2))),
          ([''ns-3'', ''scratch''], Say Error_running_scenario)]\<rparr>) \<and>
   fst (run_all_scenarios example_lib example_config fresh_tree_outs example_world) =
     Inr [(''scenario_a'', False), (''scenario_b'', False)] \<and>
   trace (snd (run_scenario example_lib example_config succeeding ''scenario_b''
                 example_world)) ! 0 =
     ([''ns-3'', ''scratch'', ''CN-ns3-project''], Makedirs ''scenario_results/scenario_b'') \<and>
   trace (snd (run_scenario example_lib example_config succeeding ''scenario_b''
                 example_world)) ! 3 =
     ([''ns-3'', ''scratch''],
      Write ''scenario_results/scenario_b/simulation_output.txt''
        (''Scenario: scenario_b'' @ [CHR 0x0A] @ ''Description: No description'' @ [CHR 0x0A] @
         ''Execution Time: 0.50 seconds'' @ [CHR 0x0A] @ ''Return Code: 0'' @
         [CHR 0x0A, CHR 0x0A] @ ''STDOUT:'' @ [CHR 0x0A] @ ''done'' @ [CHR 0x0A] @
         ''STDERR:'' @ [CHR 0x0A])) \<and>
   fst (main_run_scenarios example_lib decimal_size_config (\<lambda>s. succeeding)
          \<lparr>arg_list = False, arg_analyze_only = None, arg_compare = False,
           arg_scenario = None\<rparr> example_world) = Inl ValueError \<and>
   ([''ns-3'', ''scratch'', ''CN-ns3-project''], Makedirs ''scenario_results/scenario_b'') \<notin>
     set (trace (snd (main_run_scenarios example_lib decimal_size_config (\<lambda>s. succeeding)
          \<lparr>arg_list = False, arg_analyze_only = None, arg_compare = False,
           arg_scenario = None\<rparr> example_world)))"
proof -
  let ?batch = "\<lparr>arg_list = False, arg_analyze_only = None, arg_compare = False,
                  arg_scenario = None\<rparr>"
  let ?home = "[''ns-3'', ''scratch'', ''CN-ns3-project'']"
  let ?fresh_trace =
        "[(?home, Makedirs ''scenario_results''),
          (?home, Makedirs ''scenario_results/scenario_a''),
          ([''ns-3'', ''scratch''],
           Run [''../ns3'', ''run'', ''CN-ns3-project/footballer-network-sim'', ''--'',
                ''--simulationTime=10.0'', ''--imageSize=50000'', ''--packetSize=1024'',
                ''--dataRate=1Mbps'', ''--delay=10ms'', ''--enableNetAnim=true'']),
          ([''ns-3'', ''scratch''], Say (Scenario_failed 1 ''boom'')),
          ([''ns-3'', ''scratch''], Say Error_running_scenario),
          (?home, Makedirs ''scenario_results/scenario_b''),
          ([''ns-3'', ''scratch''],
           Run [''../ns3'', ''run'', ''CN-ns3-project/footballer-network-sim'', ''--'',
                ''--simulationTime=10.0'', ''--imageSize=50000'', ''--packetSize=1024'',
                ''--dataRate=5Mbps'', ''--delay=2ms'', ''--enableNetAnim=true'']),
          ([''ns-3'', ''scratch''], Say (Scenario_completed (1 / 2))),
          ([''ns-3'', ''scratch''], Say Error_running_scenario)]"
  have g: "given None = None"
    by (simp add: given_def)
  have scen: "get_scenarios example_config = [''scenario_a'', ''scenario_b'']"
    "get_scenarios decimal_size_config = [''scenario_a'', ''scenario_b'']"
    by (simp_all add: get_scenarios_def example_config_def decimal_size_config_def)
  have cmd: "simulator_command example_config ''scenario_a'' =
      [''../ns3'', ''run'', ''CN-ns3-project/footballer-network-sim'', ''--'',
       ''--simulationTime=10.0'', ''--imageSize=50000'', ''--packetSize=1024'',
       ''--dataRate=1Mbps'', ''--delay=10ms'', ''--enableNetAnim=true'']"
    "simulator_command example_config ''scenario_b'' =
      [''../ns3'', ''run'', ''CN-ns3-project/footballer-network-sim'', ''--'',
       ''--simulationTime=10.0'', ''--imageSize=50000'', ''--packetSize=1024'',
       ''--dataRate=5Mbps'', ''--delay=2ms'', ''--enableNetAnim=true'']"
    by (simp_all add: simulator_command_def get_option_def example_config_def lower_def Let_def)
  have dirs: "path_join results_dir ''scenario_a'' = ''scenario_results/scenario_a''"
    "path_join results_dir ''scenario_b'' = ''scenario_results/scenario_b''"
    "path_join ''scenario_results/scenario_b'' ''simulation_output.txt'' =
       ''scenario_results/scenario_b/simulation_output.txt''"
    "path_join ''scenario_results/scenario_a'' ''simulation_output.txt'' =
       ''scenario_results/scenario_a/simulation_output.txt''"
    "path_join ''scenario_results/scenario_a'' ''flowmon-results.xml'' =
       ''scenario_results/scenario_a/flowmon-results.xml''"
    "path_join ''scenario_results/scenario_b'' ''flowmon-results.xml'' =
       ''scenario_results/scenario_b/flowmon-results.xml''"
    by (simp_all add: path_join_def results_dir_def)
  have mem: "''scenario_a'' \<in> set (cfg_sections example_config)"
    "''scenario_b'' \<in> set (cfg_sections example_config)"
    "''scenario_a'' \<in> set (cfg_sections decimal_size_config)"
    by (simp_all add: example_config_def decimal_size_config_def)
  have all: "run_all_scenarios example_lib example_config fresh_tree_outs example_world =
      (Inr [(''scenario_a'', False), (''scenario_b'', False)],
       \<lparr>cwd = ?home, trace = ?fresh_trace\<rparr>)"
    by (simp add: run_all_scenarios_def scen run_scenario_def run_scenario_try_def mem cmd dirs
          fresh_tree_outs_def failing_def succeeding_def emit_def example_world_def Let_def)
       (simp add: results_dir_def)
  have main: "main_run_scenarios example_lib example_config fresh_tree_outs ?batch example_world =
      (Inr 1, \<lparr>cwd = ?home, trace = ?fresh_trace\<rparr>)"
    by (simp add: main_run_scenarios_def g all)
  have one: "run_scenario example_lib example_config succeeding ''scenario_b'' example_world =
      (True,
       \<lparr>cwd = ?home,
        trace =
          [(?home, Makedirs ''scenario_results/scenario_b''),
           ([''ns-3'', ''scratch''], Run (simulator_command example_config ''scenario_b'')),
           ([''ns-3'', ''scratch''], Say (Scenario_completed (1 / 2))),
           ([''ns-3'', ''scratch''],
            Write ''scenario_results/scenario_b/simulation_output.txt''
              (''Scenario: scenario_b'' @ [CHR 0x0A] @ ''Description: No description'' @
               [CHR 0x0A] @ ''Execution Time: 0.50 seconds'' @ [CHR 0x0A] @ ''Return Code: 0'' @
               [CHR 0x0A, CHR 0x0A] @ ''STDOUT:'' @ [CHR 0x0A] @ ''done'' @ [CHR 0x0A] @
               ''STDERR:'' @ [CHR 0x0A])),
           ([''ns-3'', ''scratch''],
            Rename ''flowmon-results.xml''
              ''scenario_results/scenario_b/flowmon-results.xml'')]\<rparr>)"
    by (simp add: run_scenario_def run_scenario_try_def mem dirs succeeding_def emit_def
          example_world_def Let_def str_int_def str_nat.simps)
       (simp add: get_option_def example_config_def example_lib_def)
  have stop: "main_run_scenarios example_lib decimal_size_config (\<lambda>s. succeeding) ?batch
                example_world =
      (Inl ValueError,
       \<lparr>cwd = ?home,
        trace =
          [(?home, Makedirs ''scenario_results''),
           (?home, Makedirs ''scenario_results/scenario_a''),
           ([''ns-3'', ''scratch''], Run (simulator_command decimal_size_config ''scenario_a'')),
           ([''ns-3'', ''scratch''], Say (Scenario_completed (1 / 2))),
           ([''ns-3'', ''scratch''],
            Write ''scenario_results/scenario_a/simulation_output.txt''
              (''Scenario: scenario_a'' @ [CHR 0x0A] @
               ''Description: '' @
               get_option decimal_size_config ''scenario_a'' ''description'' ''No description'' @
               [CHR 0x0A] @ ''Execution Time: '' @ fmt_seconds example_lib (1 / 2) @
               '' seconds'' @ [CHR 0x0A] @ ''Return Code: '' @ str_int 0 @
               [CHR 0x0A, CHR 0x0A] @ ''STDOUT:'' @ [CHR 0x0A] @ ''done'' @ [CHR 0x0A] @
               ''STDERR:'' @ [CHR 0x0A])),
           ([''ns-3'', ''scratch''],
            Rename ''flowmon-results.xml''
              ''scenario_results/scenario_a/flowmon-results.xml'')]\<rparr>)"
  proof -
    have conv: "int_of example_lib
        (get_option_or_empty decimal_size_config ''scenario_a'' ''image_size'' ''50000'') = None"
      "float_of example_lib
        (get_option_or_empty decimal_size_config ''scenario_a'' ''simulation_time'' ''10.0'') =
         Some 10"
      by (simp_all add: get_option_or_empty_def get_option_def decimal_size_config_def
            example_lib_def)
    show ?thesis
      by (simp add: main_run_scenarios_def g run_all_scenarios_def scen run_scenario_def
            run_scenario_try_def mem dirs succeeding_def emit_def example_world_def Let_def
            analyze_scenario_results_def conv)
         (simp add: results_dir_def)
  qed
  show ?thesis
    unfolding main all one stop by simp
qed



end
